theory Spec2Isabelle
  imports Complex_Main
begin

section \<open>Python values used by the control plane\<close>

text \<open>
  Exceptions of the source are values. \<open>BackendError\<close> stands for any exception raised by
  the container backend (the \<open>docker\<close> client library).
\<close>

datatype py_error = ZeroDivisionError | ValueError | KeyError | BackendError

text \<open>
  A trial identifier as the running program holds it: \<open>range(...)\<close> yields Python ints,
  while \<open>get_simulation_containers\<close> derives \<open>trial_id\<close> from the container name with
  \<open>str.replace\<close>, a Python string. Python's \<open>==\<close> never equates an int with a string,
  which is the equality of this datatype.
\<close>

datatype trial_key = IntKey int | StrKey string

text \<open>
  Python's \<open>a / b\<close> on ints and \<open>round(x, 1)\<close>. Floats are idealised as rationals: the
  quotient is exact, and rounding goes to the nearest tenth, a tie to the even tenth (what
  \<open>round\<close> does on the exact value of its argument).
\<close>

definition py_truediv :: "int \<Rightarrow> int \<Rightarrow> py_error + rat" where
  "py_truediv a b = (if b = 0 then Inl ZeroDivisionError else Inr (of_int a / of_int b))"

definition py_round1 :: "rat \<Rightarrow> rat" where
  "py_round1 q =
     (let y = q * 10; f = \<lfloor>y\<rfloor>; d = y - of_int f
      in of_int (if d < 1 / 2 then f else if 1 / 2 < d then f + 1
                 else if even f then f else f + 1) / 10)"

section \<open>BatchManager\<close>

record batch_info =
  start_trial :: int
  end_trial :: int
  concurrent :: int
  total_n :: int
  started_at :: string

record batch_manager =
  active_batch :: "batch_info option"
  pending_trials :: "trial_key list"
  completed_trials :: "trial_key list"
  failed_trials :: "trial_key list"
  concurrent_limit :: int
  running :: bool

text \<open>\<open>BatchManager.__init__\<close>.\<close>

definition BatchManager_init :: batch_manager where
  "BatchManager_init =
     \<lparr>active_batch = None, pending_trials = [], completed_trials = [], failed_trials = [],
      concurrent_limit = 3, running = False\<rparr>"

text \<open>
  \<open>BatchManager.start_batch\<close>; \<open>now\<close> is \<open>datetime.now().isoformat()\<close>.
  \<open>list(range(s, e + 1))\<close> is \<open>[s..e]\<close>, empty when \<open>e < s\<close>.
\<close>

definition bm_start_batch :: "int \<Rightarrow> int \<Rightarrow> int \<Rightarrow> string \<Rightarrow> batch_manager \<Rightarrow> batch_manager" where
  "bm_start_batch s e c now bm =
     bm\<lparr>pending_trials := map IntKey [s..e],
        completed_trials := [],
        failed_trials := [],
        concurrent_limit := c,
        active_batch := Some \<lparr>start_trial = s, end_trial = e, concurrent = c,
                               total_n = e - s + 1, started_at = now\<rparr>,
        running := True\<rparr>"

text \<open>\<open>BatchManager.stop_batch\<close>.\<close>

definition stop_batch :: "batch_manager \<Rightarrow> batch_manager" where
  "stop_batch bm = bm\<lparr>running := False, pending_trials := [], active_batch := None\<rparr>"

text \<open>
  \<open>BatchManager.get_status\<close>. With no batch record the document is \<open>{"active": False}\<close>
  and nothing else; otherwise the dict literal is built, whose last entry divides by
  \<open>active_batch["total"]\<close>.
\<close>

record status_fields =
  st_active :: bool
  st_batch :: batch_info
  st_pending :: nat
  st_pending_trials :: "trial_key list"
  st_completed :: nat
  st_completed_trials :: "trial_key list"
  st_failed :: nat
  st_failed_trials :: "trial_key list"
  st_progress :: rat

datatype status_doc = Inactive_doc | Status_doc status_fields

definition get_status :: "batch_manager \<Rightarrow> py_error + status_doc" where
  "get_status bm =
     (case active_batch bm of
        None \<Rightarrow> Inr Inactive_doc
      | Some b \<Rightarrow>
          (case py_truediv (int (length (completed_trials bm)) + int (length (failed_trials bm)))
                  (total_n b) of
             Inl err \<Rightarrow> Inl err
           | Inr q \<Rightarrow>
               Inr (Status_doc
                 \<lparr>st_active = running bm,
                  st_batch = b,
                  st_pending = length (pending_trials bm),
                  st_pending_trials = take 10 (pending_trials bm),
                  st_completed = length (completed_trials bm),
                  st_completed_trials = completed_trials bm,
                  st_failed = length (failed_trials bm),
                  st_failed_trials = failed_trials bm,
                  st_progress = py_round1 (q * 100)\<rparr>)))"

text \<open>The fields of a status document, as a client reads them from the JSON object.\<close>

fun doc_active :: "status_doc \<Rightarrow> bool" where
  "doc_active Inactive_doc = False"
| "doc_active (Status_doc d) = st_active d"

fun doc_progress :: "status_doc \<Rightarrow> rat option" where
  "doc_progress Inactive_doc = None"
| "doc_progress (Status_doc d) = Some (st_progress d)"

text \<open>
  \<open>BatchManager.mark_completed\<close> and \<open>mark_failed\<close>. \<open>list.remove\<close> deletes the first
  occurrence and is guarded by the membership test, so it never raises here.
\<close>

definition mark_completed :: "trial_key \<Rightarrow> batch_manager \<Rightarrow> batch_manager" where
  "mark_completed t bm =
     (let bm1 = (if t \<in> set (pending_trials bm)
                 then bm\<lparr>pending_trials := remove1 t (pending_trials bm)\<rparr> else bm)
      in if t \<notin> set (completed_trials bm1)
         then bm1\<lparr>completed_trials := completed_trials bm1 @ [t]\<rparr> else bm1)"

definition mark_failed :: "trial_key \<Rightarrow> batch_manager \<Rightarrow> batch_manager" where
  "mark_failed t bm =
     (let bm1 = (if t \<in> set (pending_trials bm)
                 then bm\<lparr>pending_trials := remove1 t (pending_trials bm)\<rparr> else bm)
      in if t \<notin> set (failed_trials bm1)
         then bm1\<lparr>failed_trials := failed_trials bm1 @ [t]\<rparr> else bm1)"

section \<open>The container backend, as the control plane observes it\<close>

text \<open>
  A container as \<open>get_simulation_containers\<close> reports it: the \<open>"trial_id"\<close> and
  \<open>"status"\<close> entries of its dict (the other entries play no part in scheduling).
\<close>

record container =
  c_trial_id :: string
  c_status :: string

text \<open>
  One observation of the outside world:
  \<^item> \<open>docker_available\<close>: \<open>docker_client\<close> is not \<open>None\<close>;
  \<^item> \<open>listing\<close>: the sorted list \<open>get_simulation_containers\<close> builds from the backend,
    \<open>None\<close> when a backend call raises;
  \<^item> \<open>start_fails t\<close>: \<open>start_single_trial(t)\<close> raises;
  \<^item> \<open>has_samples tid\<close>: a \<open>*_samples.csv\<close> file exists under the data directory of
    trial \<open>tid\<close>.
\<close>

record backend =
  docker_available :: bool
  listing :: "container list option"
  start_fails :: "trial_key \<Rightarrow> bool"
  has_samples :: "string \<Rightarrow> bool"

definition get_simulation_containers :: "backend \<Rightarrow> py_error + container list" where
  "get_simulation_containers be =
     (if \<not> docker_available be then Inr []
      else case listing be of None \<Rightarrow> Inl BackendError | Some cs \<Rightarrow> Inr cs)"

definition is_running :: "container \<Rightarrow> bool" where
  "is_running c = (c_status c = ''running'')"

definition get_running_trial_count :: "backend \<Rightarrow> py_error + int" where
  "get_running_trial_count be =
     (if \<not> docker_available be then Inr 0
      else case get_simulation_containers be of
             Inl err \<Rightarrow> Inl err
           | Inr cs \<Rightarrow> Inr (int (length (filter is_running cs))))"

text \<open>
  \<open>start_single_trial\<close>, reduced to whether it returns or raises: without a client the
  attribute access on \<open>None\<close> raises.
\<close>

definition start_single_trial :: "backend \<Rightarrow> trial_key \<Rightarrow> py_error + unit" where
  "start_single_trial be t =
     (if \<not> docker_available be \<or> start_fails be t then Inl BackendError else Inr ())"

section \<open>Broadcast events\<close>

datatype event =
    Trial_started trial_key status_doc
  | Batch_started "trial_key list" status_doc
  | Batch_update status_doc
  | Batch_complete status_doc
  | Batch_cancelled
  | Batch_stopped "string list"

fun is_batch_complete :: "event \<Rightarrow> bool" where
  "is_batch_complete (Batch_complete _) = True"
| "is_batch_complete _ = False"

section \<open>The batch start endpoint\<close>

record batch_request =
  req_start_trial :: int
  req_end_trial :: int
  req_concurrent :: int

record start_response =
  resp_started :: "trial_key list"
  resp_total :: int
  resp_pending :: nat

datatype http_error = Docker_not_available | Internal_error py_error

text \<open>
  The \<open>while\<close> loop of the endpoint: pop the head of \<open>pending_trials\<close>, start it, and on an
  exception mark it failed.
\<close>

function start_initial ::
  "backend \<Rightarrow> int \<Rightarrow> int \<Rightarrow> trial_key list \<Rightarrow> batch_manager \<Rightarrow> trial_key list \<times> batch_manager" where
  "start_initial be c running_count started bm =
     (case pending_trials bm of
        [] \<Rightarrow> (started, bm)
      | next_trial # rest \<Rightarrow>
          if running_count < c then
            (let bm1 = bm\<lparr>pending_trials := rest\<rparr> in
             case start_single_trial be next_trial of
               Inr _ \<Rightarrow> start_initial be c (running_count + 1) (started @ [next_trial]) bm1
             | Inl _ \<Rightarrow> start_initial be c running_count started (mark_failed next_trial bm1))
          else (started, bm))"
  by pat_completeness auto
termination
  by (relation "measure (\<lambda>(be, c, rc, st, bm). length (pending_trials bm))")
     (auto simp: mark_failed_def Let_def length_remove1)

text \<open>
  \<open>start_batch\<close> (POST /api/batch/start). The result is the HTTP outcome, the batch manager
  as the call leaves it, and the events it broadcast. The monitor task it spawns is
  \<open>batch_monitor_task\<close> below; the call is followed on its own, with no step of that
  task in between.
\<close>

definition start_batch ::
  "backend \<Rightarrow> string \<Rightarrow> batch_request \<Rightarrow> batch_manager
     \<Rightarrow> (http_error + start_response) \<times> batch_manager \<times> event list" where
  "start_batch be now batch bm =
     (if \<not> docker_available be then (Inl Docker_not_available, bm, [])
      else
        let bm0 = (if running bm then stop_batch bm else bm);
            bm1 = bm_start_batch (req_start_trial batch) (req_end_trial batch)
                    (req_concurrent batch) now bm0
        in case get_running_trial_count be of
             Inl err \<Rightarrow> (Inl (Internal_error err), bm1, [])
           | Inr running_count \<Rightarrow>
               (case start_initial be (req_concurrent batch) running_count [] bm1 of
                  (started, bm2) \<Rightarrow>
                    (case get_status bm2 of
                       Inl err \<Rightarrow> (Inl (Internal_error err), bm2, [])
                     | Inr st \<Rightarrow>
                         (Inr \<lparr>resp_started = started,
                               resp_total = req_end_trial batch - req_start_trial batch + 1,
                               resp_pending = length (pending_trials bm2)\<rparr>,
                          bm2, [Batch_started started st]))))"

section \<open>The cancel and stop endpoints\<close>

datatype backend_cmd = Container_stop string | Container_remove string | Container_run string

text \<open>
  \<open>cancel_batch\<close> (POST /api/batch/cancel): the new batch manager, the events broadcast and
  the commands issued to the backend.
\<close>

definition cancel_batch :: "batch_manager \<Rightarrow> batch_manager \<times> event list \<times> backend_cmd list" where
  "cancel_batch bm = (stop_batch bm, [Batch_cancelled], [])"

text \<open>
  \<open>stop_all\<close> (POST /api/batch/stop), the sibling that does stop workloads: \<open>names\<close> are
  the names of the running containers, \<open>None\<close> when listing them raises.
\<close>

definition has_prefix :: "string \<Rightarrow> string \<Rightarrow> bool" where
  "has_prefix p s = (take (length p) s = p)"

definition stop_all ::
  "string list option \<Rightarrow> batch_manager
     \<Rightarrow> (http_error + string list) \<times> batch_manager \<times> event list \<times> backend_cmd list" where
  "stop_all names bm =
     (case names of
        None \<Rightarrow> (Inl (Internal_error BackendError), stop_batch bm, [], [])
      | Some ns \<Rightarrow>
          (let stopped = filter (has_prefix ''aquatic-trial-'') ns
           in (Inr stopped, stop_batch bm, [Batch_stopped stopped], map Container_stop stopped)))"

section \<open>The reconciliation loop\<close>

text \<open>The \<open>for\<close> loop over the listed containers: every exited one is classified.\<close>

fun classify_exited :: "backend \<Rightarrow> container list \<Rightarrow> batch_manager \<Rightarrow> batch_manager" where
  "classify_exited be [] bm = bm"
| "classify_exited be (c # cs) bm =
     classify_exited be cs
       (if c_status c = ''exited'' then
          (if has_samples be (c_trial_id c) then mark_completed (StrKey (c_trial_id c)) bm
           else mark_failed (StrKey (c_trial_id c)) bm)
        else bm)"

text \<open>
  The inner \<open>while\<close> loop. The \<open>try\<close> block covers the start, the pop, the increment and the
  broadcast, whose argument calls \<open>get_status\<close>: an exception anywhere in it marks the
  trial failed.
\<close>

function fill_capacity ::
  "backend \<Rightarrow> int \<Rightarrow> batch_manager \<Rightarrow> event list \<Rightarrow> int \<times> batch_manager \<times> event list" where
  "fill_capacity be running_count bm evs =
     (case pending_trials bm of
        [] \<Rightarrow> (running_count, bm, evs)
      | next_trial # rest \<Rightarrow>
          if running_count < concurrent_limit bm then
            (case start_single_trial be next_trial of
               Inl _ \<Rightarrow> fill_capacity be running_count (mark_failed next_trial bm) evs
             | Inr _ \<Rightarrow>
                 (let bm1 = bm\<lparr>pending_trials := rest\<rparr> in
                  case get_status bm1 of
                    Inr st \<Rightarrow>
                      fill_capacity be (running_count + 1) bm1 (evs @ [Trial_started next_trial st])
                  | Inl _ \<Rightarrow>
                      fill_capacity be (running_count + 1) (mark_failed next_trial bm1) evs))
          else (running_count, bm, evs))"
  by pat_completeness auto
termination
  by (relation "measure (\<lambda>(be, rc, bm, evs). length (pending_trials bm))")
     (auto simp: mark_failed_def Let_def length_remove1)

text \<open>
  One pass through the body of the \<open>while\<close> loop of \<open>batch_monitor_task\<close>. The third
  component tells whether the pass ended in \<open>break\<close>. An exception inside the outer
  \<open>try\<close> is printed and the pass ends, keeping what was mutated so far.
\<close>

definition monitor_cycle :: "backend \<Rightarrow> batch_manager \<Rightarrow> batch_manager \<times> event list \<times> bool" where
  "monitor_cycle be bm =
     (case get_simulation_containers be of
        Inl _ \<Rightarrow> (bm, [], False)
      | Inr containers \<Rightarrow>
          (case fill_capacity be (int (length (filter is_running containers)))
                  (classify_exited be containers bm) [] of
             (running_count, bm2, evs) \<Rightarrow>
               (case get_status bm2 of
                  Inl _ \<Rightarrow> (bm2, evs, False)
                | Inr st \<Rightarrow>
                    if pending_trials bm2 = [] \<and> running_count = 0 then
                      (let bm3 = bm2\<lparr>running := False\<rparr> in
                       case get_status bm3 of
                         Inl _ \<Rightarrow> (bm3, evs @ [Batch_update st], False)
                       | Inr st3 \<Rightarrow> (bm3, evs @ [Batch_update st, Batch_complete st3], True))
                    else (bm2, evs @ [Batch_update st], False))))"

text \<open>
  \<open>batch_monitor_task\<close>. The world is read twice per iteration, by the loop guard and by
  the body, five seconds of sleep apart from the next guard: the task runs against a script
  of such pairs of observations, and ends by the guard, by \<open>break\<close>, by an exception of the
  guard (which no \<open>try\<close> covers), or with the script used up while still looping.
\<close>

datatype monitor_end = Guard_exit | Completed | Crashed py_error | Still_looping

definition loop_guard :: "backend \<Rightarrow> batch_manager \<Rightarrow> py_error + bool" where
  "loop_guard be bm =
     (if \<not> running bm then Inr False
      else if pending_trials bm \<noteq> [] then Inr True
      else case get_running_trial_count be of
             Inl err \<Rightarrow> Inl err
           | Inr n \<Rightarrow> Inr (0 < n))"

fun batch_monitor_task ::
  "(backend \<times> backend) list \<Rightarrow> batch_manager \<Rightarrow> monitor_end \<times> batch_manager \<times> event list" where
  "batch_monitor_task [] bm = (Still_looping, bm, [])"
| "batch_monitor_task ((at_guard, at_body) # script) bm =
     (case loop_guard at_guard bm of
        Inl err \<Rightarrow> (Crashed err, bm, [])
      | Inr False \<Rightarrow> (Guard_exit, bm, [])
      | Inr True \<Rightarrow>
          (case monitor_cycle at_body bm of
             (bm1, evs, True) \<Rightarrow> (Completed, bm1, evs)
           | (bm1, evs, False) \<Rightarrow>
               (case batch_monitor_task script bm1 of
                  (how, bm2, evs2) \<Rightarrow> (how, bm2, evs @ evs2))))"

text \<open>The two recursive loops are unfolded by hand, one step at a time.\<close>

declare start_initial.simps [simp del] fill_capacity.simps [simp del]

section \<open>What the batch scheduler is expected to maintain\<close>


text \<open>The three collections share no element, pair by pair.\<close>

definition pairwise_disjoint :: "batch_manager \<Rightarrow> bool" where
  "pairwise_disjoint bm =
     (set (pending_trials bm) \<inter> set (completed_trials bm) = {} \<and>
      set (pending_trials bm) \<inter> set (failed_trials bm) = {} \<and>
      set (completed_trials bm) \<inter> set (failed_trials bm) = {})"

text \<open>
  The life of one batch instance after \<open>BatchManager.start_batch\<close> has set it up: any
  interleaving of cancel, mark-completed, mark-failed, a dispatch (\<open>pop(0)\<close>) and whole
  reconciliation cycles, each against any observation of the backend.
\<close>

inductive evolves :: "batch_manager \<Rightarrow> batch_manager \<Rightarrow> bool" where
  ev_refl: "evolves bm bm"
| ev_cancel: "evolves bm bm1 \<Longrightarrow> evolves bm (stop_batch bm1)"
| ev_completed: "evolves bm bm1 \<Longrightarrow> evolves bm (mark_completed t bm1)"
| ev_failed: "evolves bm bm1 \<Longrightarrow> evolves bm (mark_failed t bm1)"
| ev_dispatch: "evolves bm bm1 \<Longrightarrow> pending_trials bm1 = t # rest \<Longrightarrow>
     evolves bm (bm1\<lparr>pending_trials := rest\<rparr>)"
| ev_cycle: "evolves bm bm1 \<Longrightarrow> evolves bm (fst (monitor_cycle be bm1))"

text \<open>Backends for worked examples: the client is connected and the listing is \<open>cs\<close>.\<close>

definition backend_with :: "container list \<Rightarrow> bool \<Rightarrow> bool \<Rightarrow> backend" where
  "backend_with cs starts_fail samples =
     \<lparr>docker_available = True, listing = Some cs,
      start_fails = (\<lambda>t. starts_fail), has_samples = (\<lambda>tid. samples)\<rparr>"

definition trial_container :: "string \<Rightarrow> string \<Rightarrow> container" where
  "trial_container tid status = \<lparr>c_trial_id = tid, c_status = status\<rparr>"

section \<open>Strings and the two regular expressions\<close>

text \<open>
  Strings are lists of bytes; \<open>\d\<close> is taken on ASCII digits (Python's \<open>\d\<close> on \<open>str\<close>
  also accepts the decimal digits of other scripts, which \<open>int\<close> then reads: outside the
  model). \<open>int_of_digits\<close> is \<open>int(...)\<close> on a run of digits (the interpreter's cap on
  the length of such a run is not modelled), \<open>py_str\<close> is \<open>str(...)\<close> on an int, as an
  f-string formats it.
\<close>

definition is_digit :: "char \<Rightarrow> bool" where
  "is_digit ch = (ch \<in> set ''0123456789'')"

definition digit_val :: "char \<Rightarrow> int" where
  "digit_val ch = int (of_char ch) - 48"

definition int_of_digits :: "string \<Rightarrow> int" where
  "int_of_digits ds = foldl (\<lambda>acc ch. 10 * acc + digit_val ch) 0 ds"

fun str_nat :: "nat \<Rightarrow> string" where
  "str_nat n =
     (if n < 10 then [''0123456789'' ! n]
      else str_nat (n div 10) @ [''0123456789'' ! (n mod 10)])"

definition py_str :: "int \<Rightarrow> string" where
  "py_str i = (if i < 0 then CHR ''-'' # str_nat (nat (- i)) else str_nat (nat i))"

text \<open>\<open>rest\<close> such that \<open>s = p @ rest\<close>, if any: a literal of the pattern.\<close>

definition strip_prefix :: "string \<Rightarrow> string \<Rightarrow> string option" where
  "strip_prefix p s = (if take (length p) s = p then Some (drop (length p) s) else None)"

text \<open>
  \<open>(\d+)\<close> followed by a literal that is no digit: the greedy run of digits is the only
  candidate, since a shorter run would need the literal to match a digit. The result is
  the group and what follows the literal.
\<close>

definition digits_then :: "char \<Rightarrow> string \<Rightarrow> (string \<times> string) option" where
  "digits_then lit s =
     (let ds = takeWhile is_digit s in
      if ds = [] then None
      else case dropWhile is_digit s of
             [] \<Rightarrow> None
           | ch # rest \<Rightarrow> if ch = lit then Some (ds, rest) else None)"


section \<open>Mission progress from container logs\<close>







section \<open>Resource sample of a running container\<close>

text \<open>
  The counters read from \<open>container.stats(stream=False)\<close>. A counter the payload lacks is
  \<open>None\<close>: subscripting raises \<open>KeyError\<close>, while the two memory entries are read with
  \<open>.get\<close> and a default (the \<open>memory_stats\<close> dict that holds them is taken as present).
\<close>

record raw_stats =
  cpu_total_usage :: "int option"
  precpu_total_usage :: "int option"
  system_cpu_usage :: "int option"
  presystem_cpu_usage :: "int option"
  memory_usage :: "int option"
  memory_limit :: "int option"

record container_stats =
  cpu_percent :: rat
  mem_usage_mb :: rat
  mem_percent :: rat

definition subscript :: "int option \<Rightarrow> py_error + int" where
  "subscript v = (case v of None \<Rightarrow> Inl KeyError | Some x \<Rightarrow> Inr x)"

definition dict_get :: "int option \<Rightarrow> int \<Rightarrow> int" where
  "dict_get v dflt = (case v of None \<Rightarrow> dflt | Some x \<Rightarrow> x)"

text \<open>\<open>(cpu_delta / system_delta) * 100.0 if system_delta > 0 else 0\<close>.\<close>

definition cpu_percent_of :: "int \<Rightarrow> int \<Rightarrow> py_error + rat" where
  "cpu_percent_of cpu_delta system_delta =
     (if 0 < system_delta then
        (case py_truediv cpu_delta system_delta of
           Inl err \<Rightarrow> Inl err
         | Inr q \<Rightarrow> Inr (q * 100))
      else Inr 0)"

text \<open>
  The body of the first \<open>try\<close> of \<open>get_simulation_containers\<close>; on \<open>Inl\<close> the bare
  \<open>except\<close> leaves \<open>stats\<close> as the empty dict.
\<close>

definition sample_stats :: "raw_stats \<Rightarrow> py_error + container_stats" where
  "sample_stats raw =
     (case subscript (cpu_total_usage raw) of Inl err \<Rightarrow> Inl err | Inr cpu_now \<Rightarrow>
      case subscript (precpu_total_usage raw) of Inl err \<Rightarrow> Inl err | Inr cpu_before \<Rightarrow>
      case subscript (system_cpu_usage raw) of Inl err \<Rightarrow> Inl err | Inr sys_now \<Rightarrow>
      case subscript (presystem_cpu_usage raw) of Inl err \<Rightarrow> Inl err | Inr sys_before \<Rightarrow>
      case cpu_percent_of (cpu_now - cpu_before) (sys_now - sys_before) of
        Inl err \<Rightarrow> Inl err
      | Inr cpu \<Rightarrow>
          (let mem_usage = dict_get (memory_usage raw) 0;
               mem_limit = dict_get (memory_limit raw) 1
           in case py_truediv mem_usage mem_limit of
                Inl err \<Rightarrow> Inl err
              | Inr m \<Rightarrow>
                  Inr \<lparr>cpu_percent = py_round1 cpu,
                       mem_usage_mb = py_round1 (of_int mem_usage / 1024 / 1024),
                       mem_percent = py_round1 (m * 100)\<rparr>))"

section \<open>The event broadcaster\<close>

text \<open>
  An observer is a WebSocket object, known by its identity. \<open>send_fails w\<close> tells whether
  \<open>send_json\<close> on \<open>w\<close> raises. The delivery log lists every call of \<open>send_json\<close> in the
  order it was made, with its outcome.
\<close>

type_synonym websocket = nat

record connection_manager =
  active_connections :: "websocket list"

datatype 'm delivery = Delivered websocket 'm | Send_failed websocket 'm

fun delivery_to :: "'m delivery \<Rightarrow> websocket" where
  "delivery_to (Delivered w m) = w"
| "delivery_to (Send_failed w m) = w"

fun delivered :: "'m delivery \<Rightarrow> bool" where
  "delivered (Delivered w m) = True"
| "delivered (Send_failed w m) = False"

definition connect :: "websocket \<Rightarrow> connection_manager \<Rightarrow> connection_manager" where
  "connect w cm = cm\<lparr>active_connections := active_connections cm @ [w]\<rparr>"

text \<open>\<open>list.remove\<close> raises \<open>ValueError\<close> when the element is absent.\<close>

definition disconnect :: "websocket \<Rightarrow> connection_manager \<Rightarrow> py_error + connection_manager" where
  "disconnect w cm =
     (if w \<in> set (active_connections cm)
      then Inr (cm\<lparr>active_connections := remove1 w (active_connections cm)\<rparr>)
      else Inl ValueError)"

text \<open>The \<open>for\<close> loop of \<open>broadcast\<close> with its \<open>try\<close> / bare \<open>except: pass\<close>.\<close>

fun broadcast_loop :: "(websocket \<Rightarrow> bool) \<Rightarrow> 'm \<Rightarrow> websocket list \<Rightarrow> 'm delivery list" where
  "broadcast_loop send_fails message [] = []"
| "broadcast_loop send_fails message (connection # rest) =
     (if send_fails connection then Send_failed connection message
      else Delivered connection message) # broadcast_loop send_fails message rest"

definition broadcast ::
  "(websocket \<Rightarrow> bool) \<Rightarrow> 'm \<Rightarrow> connection_manager \<Rightarrow> connection_manager \<times> 'm delivery list" where
  "broadcast send_fails message cm =
     (cm, broadcast_loop send_fails message (active_connections cm))"

section \<open>The trial VNC proxy\<close>

definition BASE_VNC_PORT :: int where
  "BASE_VNC_PORT = 6080"

text \<open>
  The request, as far as routing reads it: \<open>request.headers.get('Host', '')\<close> and the path
  with its query string.
\<close>

record proxy_request =
  host_header :: string
  path_qs :: string

text \<open>\<open>re.match(r'trial(\d+)\.', host)\<close>: anchored at the start of the host.\<close>

definition extract_trial_number :: "proxy_request \<Rightarrow> int option" where
  "extract_trial_number request =
     (case strip_prefix ''trial'' (host_header request) of
        None \<Rightarrow> None
      | Some r \<Rightarrow>
          (case digits_then (CHR ''.'') r of
             None \<Rightarrow> None
           | Some (ds, rest) \<Rightarrow> Some (int_of_digits ds)))"

text \<open>
  What the upstream request to \<open>localhost:port\<close> comes to: \<open>ClientConnectorError\<close>, a
  reply (status and body), or any other exception, which the handler does not catch.
\<close>

datatype upstream_result = Client_connector_error | Upstream_reply nat string | Other_exception

record proxy_response =
  resp_status :: nat
  resp_text :: string

text \<open>
  \<open>proxy_handler\<close>: the response (or the uncaught exception), and the ports an upstream
  connection was attempted to, in order.
\<close>

definition proxy_handler ::
  "(int \<Rightarrow> string \<Rightarrow> upstream_result) \<Rightarrow> proxy_request \<Rightarrow> (unit + proxy_response) \<times> int list" where
  "proxy_handler upstream request =
     (case extract_trial_number request of
        None \<Rightarrow>
          (Inr \<lparr>resp_status = 400,
                resp_text = ''Invalid trial URL. Use trialX.bharathdesikan.com''\<rparr>, [])
      | Some trial_num \<Rightarrow>
          (let target_port = BASE_VNC_PORT + trial_num in
           case upstream target_port (path_qs request) of
             Upstream_reply status body \<Rightarrow>
               (Inr \<lparr>resp_status = status, resp_text = body\<rparr>, [target_port])
           | Client_connector_error \<Rightarrow>
               (Inr \<lparr>resp_status = 503,
                     resp_text = ''Trial '' @ py_str trial_num @ '' VNC not running (port ''
                                 @ py_str target_port @ '')''\<rparr>, [target_port])
           | Other_exception \<Rightarrow> (Inl (), [target_port])))"

text \<open>
  \<open>websocket_handler\<close>, the handler of \<open>GET /websockify\<close>: it parses the host in the same
  way, then upgrades the client connection and connects to the same port. \<open>ws_connect\<close>
  tells whether that connection is made. The relay of frames in both directions is not
  followed; an upstream failure is logged and the upgraded connection is returned closed.
\<close>

datatype ws_outcome = Ws_rejected proxy_response | Ws_relayed | Ws_closed_on_error

definition websocket_handler ::
  "(int \<Rightarrow> string \<Rightarrow> bool) \<Rightarrow> proxy_request \<Rightarrow> ws_outcome \<times> int list" where
  "websocket_handler ws_connect request =
     (case extract_trial_number request of
        None \<Rightarrow> (Ws_rejected \<lparr>resp_status = 400, resp_text = ''Invalid trial URL''\<rparr>, [])
      | Some trial_num \<Rightarrow>
          (let target_port = BASE_VNC_PORT + trial_num in
           if ws_connect target_port (path_qs request) then (Ws_relayed, [target_port])
           else (Ws_closed_on_error, [target_port])))"

section \<open>Worked scenarios\<close>

text \<open>
  A batch of the single trial 1 with concurrency 1, started on an idle backend: trial 1 is
  dispatched at once and the pending queue is empty.
\<close>

definition single_trial_batch :: batch_manager where
  "single_trial_batch =
     fst (snd (start_batch (backend_with [] False False) ''t0''
        \<lparr>req_start_trial = 1, req_end_trial = 1, req_concurrent = 1\<rparr> BatchManager_init))"

text \<open>
  What the monitor of that batch then observes: trial 1 running at the first guard and in
  the first pass; its container has exited, samples written, when the guard is evaluated
  after the sleep.
\<close>

definition exit_during_sleep :: "(backend \<times> backend) list" where
  "exit_during_sleep =
     [(backend_with [trial_container ''1'' ''running''] False False,
       backend_with [trial_container ''1'' ''running''] False False),
      (backend_with [trial_container ''1'' ''exited''] False True,
       backend_with [trial_container ''1'' ''exited''] False True)]"

text \<open>
  The same batch after a pass of the loop body that finds the container of trial 1 exited
  with its samples on disk, nothing pending and nothing running.
\<close>

definition finished_batch :: batch_manager where
  "finished_batch =
     fst (monitor_cycle (backend_with [trial_container ''1'' ''exited''] False True)
            single_trial_batch)"

text \<open>
  A batch of the trials 1 and 2 with concurrency 1, started on an idle backend, and two
  reconciliation cycles on it: the first finds the container of trial 1 exited with no
  samples on disk, the second finds it exited with samples (and trial 2 running).
\<close>

definition two_trial_batch :: batch_manager where
  "two_trial_batch =
     fst (snd (start_batch (backend_with [] False False) ''t0''
        \<lparr>req_start_trial = 1, req_end_trial = 2, req_concurrent = 1\<rparr> BatchManager_init))"



section \<open>Rounding\<close>

lemma py_round1_tenth: "\<exists>k::int. py_round1 q = of_int k / 10"
  unfolding py_round1_def Let_def by blast

lemma round_tenth_aux:
  fixes y r :: rat
  assumes "r \<le> y" "y < r + 1"
  shows "\<bar>(if y - r < 1 / 2 then r else if 1 / 2 < y - r then r + 1
           else if b then r else r + 1) / 10 - y / 10\<bar> \<le> 1 / 20"
  using assms by (auto simp: abs_if field_simps)

lemma py_round1_near: "\<bar>py_round1 q - q\<bar> \<le> 1 / 20"
proof -
  define y where "y = q * 10"
  define r :: rat where "r = of_int \<lfloor>y\<rfloor>"
  have b: "r \<le> y" "y < r + 1" unfolding r_def by linarith+
  have e1: "py_round1 q = (if y - r < 1 / 2 then r else if 1 / 2 < y - r then r + 1
           else if even \<lfloor>y\<rfloor> then r else r + 1) / 10"
    unfolding py_round1_def Let_def y_def[symmetric] r_def
    by (simp only: if_distrib[of of_int] of_int_add of_int_1)
  have e2: "q = y / 10" unfolding y_def by simp
  show ?thesis unfolding e1 by (subst e2) (rule round_tenth_aux[OF b])
qed

section \<open>Cancelling a batch\<close>

text \<open>
  C8. For every batch state, cancel deactivates the batch and empties the pending queue,
  leaves the completed and failed lists (and the concurrency limit) as they were, issues no
  command to the backend, broadcasts the one event \<open>batch_cancelled\<close>, and cancelling the
  cancelled state again changes nothing.
\<close>

theorem cancel_batch_frame:
  "(case cancel_batch bm of (bm', evs, cmds) \<Rightarrow>
      \<not> running bm' \<and> active_batch bm' = None \<and> pending_trials bm' = [] \<and>
      completed_trials bm' = completed_trials bm \<and> failed_trials bm' = failed_trials bm \<and>
      concurrent_limit bm' = concurrent_limit bm \<and>
      cmds = [] \<and> evs = [Batch_cancelled] \<and>
      stop_batch bm' = bm' \<and> cancel_batch bm' = cancel_batch bm)"
  by (simp add: cancel_batch_def stop_batch_def)

text \<open>The sibling endpoint does stop every listed trial container.\<close>

lemma stop_all_stops:
  "stop_all (Some [''aquatic-trial-1'', ''other'', ''aquatic-trial-2'']) bm =
     (Inr [''aquatic-trial-1'', ''aquatic-trial-2''], stop_batch bm,
      [Batch_stopped [''aquatic-trial-1'', ''aquatic-trial-2'']],
      [Container_stop ''aquatic-trial-1'', Container_stop ''aquatic-trial-2''])"
  by (simp add: stop_all_def has_prefix_def Let_def)

section \<open>The status document\<close>

text \<open>
  C10. \<open>get_status\<close> raises exactly when a batch record is present whose total is 0. For
  the record \<open>BatchManager.start_batch\<close> writes, that is exactly the range with
  \<open>end = start - 1\<close>; the range is accepted and the batch marked running all the same, so
  the status query of that batch fails with \<open>ZeroDivisionError\<close>.
\<close>

theorem get_status_zero_total:
  "isl (get_status bm) = (\<exists>b. active_batch bm = Some b \<and> total_n b = 0) \<and>
   isl (get_status (bm_start_batch s e c now bm)) = (e = s - 1) \<and>
   running (bm_start_batch s e c now bm) \<and>
   get_status (bm_start_batch s (s - 1) c now bm) = Inl ZeroDivisionError"
  by (auto simp: get_status_def py_truediv_def bm_start_batch_def split: option.splits)

text \<open>
  The same through the endpoint: the request for the range 5..4 is answered with an
  internal error, and leaves a running batch behind whose status query raises.
\<close>

lemma start_batch_empty_range:
  "fst (start_batch (backend_with [] False False) ''t0''
          \<lparr>req_start_trial = 5, req_end_trial = 4, req_concurrent = 2\<rparr> BatchManager_init)
     = Inl (Internal_error ZeroDivisionError) \<and>
   running (fst (snd (start_batch (backend_with [] False False) ''t0''
          \<lparr>req_start_trial = 5, req_end_trial = 4, req_concurrent = 2\<rparr> BatchManager_init)))"
  by code_simp

text \<open>
  C3, as the code has it. With no batch record the document is \<open>{"active": False}\<close> and
  carries no progress entry. With a batch record whose total is not 0 the document holds
  the running flag, the batch record, the number of pending trials, the first ten of them,
  the completed and the failed list each with its length, and a progress that is a whole
  number of tenths within 0.05 of \<open>(|completed| + |failed|) / total * 100\<close>.
\<close>

theorem get_status_document:
  "(active_batch bm = None \<longrightarrow> get_status bm = Inr Inactive_doc) \<and>
   (\<forall>b. active_batch bm = Some b \<and> total_n b \<noteq> 0 \<longrightarrow>
      (\<exists>d. get_status bm = Inr (Status_doc d) \<and>
           st_active d = running bm \<and> st_batch d = b \<and>
           st_pending d = length (pending_trials bm) \<and>
           st_pending_trials d = take 10 (pending_trials bm) \<and>
           st_completed d = length (completed_trials bm) \<and>
           st_completed_trials d = completed_trials bm \<and>
           st_failed d = length (failed_trials bm) \<and>
           st_failed_trials d = failed_trials bm \<and>
           (\<exists>k::int. st_progress d = of_int k / 10) \<and>
           \<bar>st_progress d -
              of_nat (length (completed_trials bm) + length (failed_trials bm))
                / of_int (total_n b) * 100\<bar> \<le> 1 / 20))"
proof (intro conjI allI impI)
  assume "active_batch bm = None"
  then show "get_status bm = Inr Inactive_doc" by (simp add: get_status_def)
next
  fix b assume a: "active_batch bm = Some b \<and> total_n b \<noteq> 0"
  define q :: rat where
    "q = of_int (int (length (completed_trials bm)) + int (length (failed_trials bm)))
           / of_int (total_n b)"
  define d where "d =
     \<lparr>st_active = running bm, st_batch = b, st_pending = length (pending_trials bm),
      st_pending_trials = take 10 (pending_trials bm),
      st_completed = length (completed_trials bm), st_completed_trials = completed_trials bm,
      st_failed = length (failed_trials bm), st_failed_trials = failed_trials bm,
      st_progress = py_round1 (q * 100)\<rparr>"
  have g: "get_status bm = Inr (Status_doc d)"
    using a by (simp add: get_status_def py_truediv_def q_def d_def)
  have eq: "of_nat (length (completed_trials bm) + length (failed_trials bm))
              / of_int (total_n b) * 100 = q * 100"
    by (simp add: q_def)
  have p: "st_progress d = py_round1 (q * 100)" by (simp add: d_def)
  show "\<exists>d. get_status bm = Inr (Status_doc d) \<and>
           st_active d = running bm \<and> st_batch d = b \<and>
           st_pending d = length (pending_trials bm) \<and>
           st_pending_trials d = take 10 (pending_trials bm) \<and>
           st_completed d = length (completed_trials bm) \<and>
           st_completed_trials d = completed_trials bm \<and>
           st_failed d = length (failed_trials bm) \<and>
           st_failed_trials d = failed_trials bm \<and>
           (\<exists>k::int. st_progress d = of_int k / 10) \<and>
           \<bar>st_progress d -
              of_nat (length (completed_trials bm) + length (failed_trials bm))
                / of_int (total_n b) * 100\<bar> \<le> 1 / 20"
    unfolding eq
  proof (intro exI[of _ d] conjI)
    show "\<exists>k::int. st_progress d = of_int k / 10" unfolding p by (rule py_round1_tenth)
    show "\<bar>st_progress d - q * 100\<bar> \<le> 1 / 20" unfolding p by (rule py_round1_near)
  qed (simp_all add: g d_def)
qed

text \<open>
  At a batch of twelve trials with one completed and eleven pending: the preview stops
  after ten identifiers and the progress is within 0.05 of 25/3.
\<close>

theorem get_status_document_witness:
  "\<exists>d. get_status
     \<lparr>active_batch = Some \<lparr>start_trial = 1, end_trial = 12, concurrent = 2, total_n = 12,
                             started_at = ''t0''\<rparr>,
      pending_trials = map IntKey [3, 4, 5, 6, 7, 8, 9, 10, 11, 12, 13],
      completed_trials = [StrKey ''1''], failed_trials = [],
      concurrent_limit = 2, running = True\<rparr> = Inr (Status_doc d) \<and>
     st_pending d = 11 \<and>
     st_pending_trials d = map IntKey [3, 4, 5, 6, 7, 8, 9, 10, 11, 12] \<and>
     \<bar>st_progress d - 25 / 3\<bar> \<le> 1 / 20"
  using get_status_document[of
     "\<lparr>active_batch = Some \<lparr>start_trial = 1, end_trial = 12, concurrent = 2, total_n = 12,
                             started_at = ''t0''\<rparr>,
      pending_trials = map IntKey [3, 4, 5, 6, 7, 8, 9, 10, 11, 12, 13],
      completed_trials = [StrKey ''1''], failed_trials = [],
      concurrent_limit = 2, running = True\<rparr>"]
  by auto

text \<open>
  After a cancel no batch is active, and the status document reports no progress of 0:
  it has no progress entry at all. And a batch that the reconciliation loop has ended is
  not active either, yet its document reports a progress of 100.
\<close>

theorem get_status_no_batch_counterexample:
  "get_status (stop_batch (bm_start_batch 1 3 2 ''t0'' BatchManager_init)) = Inr Inactive_doc \<and>
   doc_progress (projr (get_status (stop_batch (bm_start_batch 1 3 2 ''t0'' BatchManager_init))))
     \<noteq> Some 0 \<and>
   \<not> doc_active (projr (get_status finished_batch)) \<and>
   doc_progress (projr (get_status finished_batch)) = Some 100"
proof -
  have "get_status (stop_batch (bm_start_batch 1 3 2 ''t0'' BatchManager_init)) = Inr Inactive_doc"
    by (simp add: get_status_def stop_batch_def)
  moreover have "\<not> doc_active (projr (get_status finished_batch)) \<and>
   doc_progress (projr (get_status finished_batch)) = Some 100"
    by code_simp
  ultimately show ?thesis by simp
qed

text \<open>
  A batch the reconciliation loop has finished keeps its record: its document has the
  active flag false and a progress of 100.
\<close>

lemma get_status_finished_batch:
  "get_status
     \<lparr>active_batch = Some \<lparr>start_trial = 1, end_trial = 2, concurrent = 2, total_n = 2,
                             started_at = ''t0''\<rparr>,
      pending_trials = [], completed_trials = [StrKey ''1'', StrKey ''2''], failed_trials = [],
      concurrent_limit = 2, running = False\<rparr> =
   Inr (Status_doc
     \<lparr>st_active = False,
      st_batch = \<lparr>start_trial = 1, end_trial = 2, concurrent = 2, total_n = 2, started_at = ''t0''\<rparr>,
      st_pending = 0, st_pending_trials = [], st_completed = 2,
      st_completed_trials = [StrKey ''1'', StrKey ''2''], st_failed = 0, st_failed_trials = [],
      st_progress = 100\<rparr>)"
  by (simp add: get_status_def py_truediv_def py_round1_def)

section \<open>The queue discipline\<close>



lemma mark_completed_pending:
  "set (pending_trials (mark_completed t bm)) \<subseteq> set (pending_trials bm)"
  using set_remove1_subset[of t "pending_trials bm"] by (auto simp: mark_completed_def Let_def)

lemma mark_failed_pending:
  "set (pending_trials (mark_failed t bm)) \<subseteq> set (pending_trials bm)"
  using set_remove1_subset[of t "pending_trials bm"] by (auto simp: mark_failed_def Let_def)

lemma mark_failed_length:
  "length (pending_trials (mark_failed t bm)) \<le> length (pending_trials bm)"
  by (simp add: mark_failed_def Let_def length_remove1)





text \<open>
  Whatever the marking operations and a pop of the head keep, the loops keep: each loop is
  a sequence of such steps. The loops are followed by induction on the length of the
  pending queue, which every iteration shortens.
\<close>

lemma classify_exited_keeps:
  assumes "\<And>t b. Q b \<Longrightarrow> Q (mark_completed t b)" "\<And>t b. Q b \<Longrightarrow> Q (mark_failed t b)"
  shows "Q bm \<Longrightarrow> Q (classify_exited be cs bm)"
  by (induction cs arbitrary: bm) (auto intro: assms)


lemma start_initial_keeps:
  assumes mf: "\<And>t b. Q b \<Longrightarrow> Q (mark_failed t b)"
      and pop: "\<And>t rest b. Q b \<Longrightarrow> pending_trials b = t # rest \<Longrightarrow> Q (b\<lparr>pending_trials := rest\<rparr>)"
  shows "Q bm \<Longrightarrow> Q (snd (start_initial be c rc started bm))"
proof (induction "length (pending_trials bm)" arbitrary: bm rc started rule: less_induct)
  case less
  show ?case
  proof (cases "pending_trials bm")
    case Nil
    then show ?thesis using less.prems by (subst start_initial.simps) simp
  next
    case (Cons t rest)
    let ?bm1 = "bm\<lparr>pending_trials := rest\<rparr>"
    have q1: "Q ?bm1" using pop[OF less.prems Cons] .
    have l1: "length (pending_trials ?bm1) < length (pending_trials bm)" using Cons by simp
    have l3: "length (pending_trials (mark_failed t ?bm1)) < length (pending_trials bm)"
      using mark_failed_length[of t ?bm1] Cons by simp
    note ih1 = less.hyps[OF l1 q1] and ih3 = less.hyps[OF l3 mf[OF q1]]
    show ?thesis
      by (subst start_initial.simps)
         (simp add: Cons Let_def less.prems ih1 ih3 split: sum.splits)
  qed
qed







text \<open>
  The dispatch loop of the start endpoint is such an evolution of the batch that
  \<open>BatchManager.start_batch\<close> set up, so the state the endpoint returns is covered.
\<close>

lemma start_initial_evolves:
  "evolves bm0 bm \<Longrightarrow> evolves bm0 (snd (start_initial be c rc started bm))"
  by (rule start_initial_keeps[where Q = "evolves bm0"]) (auto intro: evolves.intros)

lemma start_batch_evolves:
  "docker_available be \<Longrightarrow>
   evolves
     (bm_start_batch (req_start_trial batch) (req_end_trial batch) (req_concurrent batch) now
        (if running bm then stop_batch bm else bm))
     (fst (snd (start_batch be now batch bm)))"
proof -
  assume d: "docker_available be"
  let ?bm1 = "bm_start_batch (req_start_trial batch) (req_end_trial batch) (req_concurrent batch)
     now (if running bm then stop_batch bm else bm)"
  show ?thesis
  proof (cases "get_running_trial_count be")
    case (Inl err)
    then show ?thesis using d by (simp add: start_batch_def Let_def ev_refl)
  next
    case (Inr rc)
    obtain started bm2 where s: "start_initial be (req_concurrent batch) rc [] ?bm1 = (started, bm2)"
      by (cases "start_initial be (req_concurrent batch) rc [] ?bm1")
    have "evolves ?bm1 (snd (start_initial be (req_concurrent batch) rc [] ?bm1))"
      by (rule start_initial_evolves) (rule ev_refl)
    then have "evolves ?bm1 bm2" using s by simp
    then show ?thesis using d Inr s
      by (cases "running bm") (auto simp: start_batch_def Let_def split: sum.splits)
  qed
qed

text \<open>A run of the monitor task is a sequence of cycles.\<close>

lemma batch_monitor_task_evolves:
  "evolves bm0 bm \<Longrightarrow> evolves bm0 (fst (snd (batch_monitor_task script bm)))"
proof (induction script arbitrary: bm)
  case Nil
  then show ?case by simp
next
  case (Cons obs script)
  obtain at_guard at_body where o: "obs = (at_guard, at_body)" by (cases obs)
  obtain bm1 evs brk where c: "monitor_cycle at_body bm = (bm1, evs, brk)"
    by (cases "monitor_cycle at_body bm")
  have "evolves bm0 (fst (monitor_cycle at_body bm))" using Cons.prems by (rule ev_cycle)
  then have e1: "evolves bm0 bm1" using c by simp
  note ih = Cons.IH[OF e1]
  show ?case
    using Cons.prems e1 ih
    by (cases "loop_guard at_guard bm"; cases brk)
       (auto simp: o c split: sum.splits bool.splits prod.splits)
qed




text \<open>
  The cycle hands the container's \<open>trial_id\<close>, a string, to the marking operations, while
  the pending queue holds ints: the membership test of the marking never finds the
  identifier pending. With a container of trial 2 left over from an earlier run, exited
  with samples, the cycle lists trial 2 as completed and leaves it in the pending queue.
\<close>

lemma cycle_marks_by_string:
  "pending_trials two_trial_batch = [IntKey 2] \<and>
   pending_trials
     (fst (monitor_cycle
        (backend_with [trial_container ''1'' ''running'', trial_container ''2'' ''exited'']
           False True)
        two_trial_batch)) = [IntKey 2] \<and>
   completed_trials
     (fst (monitor_cycle
        (backend_with [trial_container ''1'' ''running'', trial_container ''2'' ''exited'']
           False True)
        two_trial_batch)) = [StrKey ''2'']"
  by code_simp

text \<open>
  The same on the two operations alone: neither looks at the other list.
\<close>

lemma mark_completed_after_failed:
  "pairwise_disjoint (mark_failed (StrKey ''2'') (bm_start_batch 1 3 2 ''t0'' BatchManager_init)) \<and>
   \<not> pairwise_disjoint
       (mark_completed (StrKey ''2'')
          (mark_failed (StrKey ''2'') (bm_start_batch 1 3 2 ''t0'' BatchManager_init)))"
  by (auto simp: pairwise_disjoint_def mark_completed_def mark_failed_def bm_start_batch_def
        BatchManager_init_def Let_def)

section \<open>Starting a batch\<close>

lemma upto_cut:
  assumes "0 \<le> k" "k \<le> e - s + 1"
  shows "[s..e] = [s..s + k - 1] @ [s + k..e]"
  using upto_split2[of s "s + k - 1" e] assms
  by (cases "k = 0") (auto simp: algebra_simps)

lemma take_upto: "0 \<le> k \<Longrightarrow> k \<le> e - s + 1 \<Longrightarrow> take (nat k) [s..e] = [s..s + k - 1]"
  by (subst upto_cut[of k e s]) simp_all

lemma drop_upto: "0 \<le> k \<Longrightarrow> k \<le> e - s + 1 \<Longrightarrow> drop (nat k) [s..e] = [s + k..e]"
  by (subst upto_cut[of k e s]) simp_all

text \<open>
  When every start succeeds the dispatch loop takes trials off the head of the queue
  until the running count reaches the limit.
\<close>

lemma start_initial_all_ok:
  assumes ok: "docker_available be" "\<And>t. \<not> start_fails be t"
  shows "start_initial be c rc started bm =
     (started @ take (nat (c - rc)) (pending_trials bm),
      bm\<lparr>pending_trials := drop (nat (c - rc)) (pending_trials bm)\<rparr>)"
proof (induction "pending_trials bm" arbitrary: bm rc started)
  case Nil
  then show ?case by (subst start_initial.simps) simp
next
  case (Cons t rest)
  have p: "pending_trials bm = t # rest" using Cons.hyps(2) by simp
  show ?case
  proof (cases "rc < c")
    case True
    have st: "start_single_trial be t = Inr ()" using ok by (simp add: start_single_trial_def)
    have ih: "start_initial be c (rc + 1) (started @ [t]) (bm\<lparr>pending_trials := rest\<rparr>) =
      ((started @ [t]) @ take (nat (c - (rc + 1))) rest,
       bm\<lparr>pending_trials := drop (nat (c - (rc + 1))) rest\<rparr>)"
      using Cons.hyps(1)[of "bm\<lparr>pending_trials := rest\<rparr>" "rc + 1" "started @ [t]"] by simp
    have n: "nat (c - rc) = Suc (nat (c - (rc + 1)))" using True by simp
    show ?thesis
      by (subst start_initial.simps) (simp add: p True st ih n)
  next
    case False
    then show ?thesis using p by (subst start_initial.simps) simp
  qed
qed

text \<open>
  C1, as the code has it. Let the backend be connected, \<open>r\<close> trial containers be running
  when the start request for the range \<open>[s, e]\<close>, \<open>s \<le> e\<close>, with limit \<open>c \<ge> 1\<close> arrives,
  and let every start succeed. Then the call dispatches the first
  \<open>k = min (max (c - r) 0) (e - s + 1)\<close> identifiers of the range, the pending queue holds
  exactly the remaining ones in ascending order, and nothing is marked completed or
  failed. With no container running beforehand, \<open>k = min c (e - s + 1)\<close>.
\<close>

theorem start_batch_dispatch:
  assumes be: "docker_available be" "listing be = Some cs" "\<forall>t. \<not> start_fails be t"
      and range: "s \<le> e" "1 \<le> c"
      and k: "k = min (max (c - int (length (filter is_running cs))) 0) (e - s + 1)"
  shows "\<exists>bm' st.
     start_batch be now \<lparr>req_start_trial = s, req_end_trial = e, req_concurrent = c\<rparr> bm =
       (Inr \<lparr>resp_started = map IntKey [s..s + k - 1], resp_total = e - s + 1,
             resp_pending = nat (e - s + 1 - k)\<rparr>,
        bm', [Batch_started (map IntKey [s..s + k - 1]) st]) \<and>
     int (length (map IntKey [s..s + k - 1])) = k \<and>
     pending_trials bm' = map IntKey [s + k..e] \<and>
     completed_trials bm' = [] \<and> failed_trials bm' = [] \<and> running bm' \<and>
     (length (filter is_running cs) = 0 \<longrightarrow> k = min c (e - s + 1))"
proof -
  define r where "r = int (length (filter is_running cs))"
  define bm0 where "bm0 = (if running bm then stop_batch bm else bm)"
  define bm1 where "bm1 = bm_start_batch s e c now bm0"
  have k0: "0 \<le> k" "k \<le> e - s + 1" using k range by auto
  have rc: "get_running_trial_count be = Inr r"
    using be by (simp add: get_running_trial_count_def get_simulation_containers_def r_def)
  have p1: "pending_trials bm1 = map IntKey [s..e]" by (simp add: bm1_def bm_start_batch_def)
  have tk: "take (nat (c - r)) [s..e] = [s..s + k - 1]"
  proof (cases "c - r \<le> e - s + 1")
    case True
    then have "nat (c - r) = nat k" using k r_def by auto
    then show ?thesis using take_upto[OF k0] by simp
  next
    case False
    then have "k = e - s + 1" using k r_def by auto
    moreover have "length [s..e] \<le> nat (c - r)" using False by simp
    ultimately show ?thesis by simp
  qed
  have dk: "drop (nat (c - r)) [s..e] = [s + k..e]"
  proof (cases "c - r \<le> e - s + 1")
    case True
    then have "nat (c - r) = nat k" using k r_def by auto
    then show ?thesis using drop_upto[OF k0] by simp
  next
    case False
    then have "k = e - s + 1" using k r_def by auto
    moreover have "length [s..e] \<le> nat (c - r)" using False by simp
    ultimately show ?thesis by simp
  qed
  define bm2 where "bm2 = bm1\<lparr>pending_trials := map IntKey [s + k..e]\<rparr>"
  have si: "start_initial be c r [] bm1 = (map IntKey [s..s + k - 1], bm2)"
    using start_initial_all_ok[of be c r "[]" bm1] be
    by (simp add: p1 take_map drop_map tk dk bm2_def)
  have tot: "active_batch bm2 = Some \<lparr>start_trial = s, end_trial = e, concurrent = c,
       total_n = e - s + 1, started_at = now\<rparr>"
    by (simp add: bm2_def bm1_def bm_start_batch_def)
  obtain st where st: "get_status bm2 = Inr st"
    using range by (auto simp: get_status_def tot py_truediv_def)
  have "start_batch be now \<lparr>req_start_trial = s, req_end_trial = e, req_concurrent = c\<rparr> bm =
       (Inr \<lparr>resp_started = map IntKey [s..s + k - 1], resp_total = e - s + 1,
             resp_pending = nat (e - s + 1 - k)\<rparr>,
        bm2, [Batch_started (map IntKey [s..s + k - 1]) st])"
    using be(1) k0
    by (simp add: start_batch_def Let_def rc bm0_def[symmetric] bm1_def[symmetric] si st)
       (simp add: bm2_def algebra_simps)
  moreover have "int (length (map IntKey [s..s + k - 1])) = k" using k0 by simp
  moreover have "pending_trials bm2 = map IntKey [s + k..e]" by (simp add: bm2_def)
  moreover have "completed_trials bm2 = [] \<and> failed_trials bm2 = [] \<and> running bm2"
    by (simp add: bm2_def bm1_def bm_start_batch_def)
  moreover have "length (filter is_running cs) = 0 \<longrightarrow> k = min c (e - s + 1)"
    using k range by auto
  ultimately show ?thesis by blast
qed

text \<open>
  The range 1..5 with limit 2 on a backend whose only trial container has exited: trials
  1 and 2 are dispatched, 3, 4 and 5 stay pending.
\<close>

theorem start_batch_dispatch_witness:
  "\<exists>bm' st.
     start_batch (backend_with [trial_container ''9'' ''exited''] False False) ''t0''
       \<lparr>req_start_trial = 1, req_end_trial = 5, req_concurrent = 2\<rparr> BatchManager_init =
       (Inr \<lparr>resp_started = map IntKey [1, 2], resp_total = 5, resp_pending = 3\<rparr>,
        bm', [Batch_started (map IntKey [1, 2]) st]) \<and>
     pending_trials bm' = map IntKey [3, 4, 5]"
proof -
  have u1: "[1..2] = [1, 2::int]" and u2: "[3..5] = [3, 4, 5::int]" by (simp_all add: upto.simps)
  show ?thesis
    using start_batch_dispatch[of "backend_with [trial_container ''9'' ''exited''] False False"
       "[trial_container ''9'' ''exited'']" 1 5 2 2 "''t0''" BatchManager_init]
    by (simp add: backend_with_def trial_container_def is_running_def u1 u2) blast
qed

text \<open>
  With one trial container already running, the start of the range 1..3 with limit 1
  dispatches nothing, where \<open>min(c, e - s + 1) = 1\<close>: all three identifiers stay pending.
\<close>

theorem start_batch_dispatch_counterexample:
  "fst (start_batch (backend_with [trial_container ''9'' ''running''] False False) ''t0''
          \<lparr>req_start_trial = 1, req_end_trial = 3, req_concurrent = 1\<rparr> BatchManager_init)
     = Inr \<lparr>resp_started = [], resp_total = 3, resp_pending = 3\<rparr> \<and>
   int (length (resp_started (projr (fst
      (start_batch (backend_with [trial_container ''9'' ''running''] False False) ''t0''
          \<lparr>req_start_trial = 1, req_end_trial = 3, req_concurrent = 1\<rparr> BatchManager_init)))))
     \<noteq> min 1 (3 - 1 + 1) \<and>
   pending_trials (fst (snd
      (start_batch (backend_with [trial_container ''9'' ''running''] False False) ''t0''
          \<lparr>req_start_trial = 1, req_end_trial = 3, req_concurrent = 1\<rparr> BatchManager_init)))
     = map IntKey [1, 2, 3]"
  by code_simp

text \<open>
  A start that fails is no dispatch either: on an idle backend that refuses every start,
  the range 1..1 with limit 1 dispatches nothing and marks trial 1 failed.
\<close>

lemma start_batch_start_failure:
  "fst (start_batch (backend_with [] True False) ''t0''
          \<lparr>req_start_trial = 1, req_end_trial = 1, req_concurrent = 1\<rparr> BatchManager_init)
     = Inr \<lparr>resp_started = [], resp_total = 1, resp_pending = 0\<rparr> \<and>
   failed_trials (fst (snd
      (start_batch (backend_with [] True False) ''t0''
          \<lparr>req_start_trial = 1, req_end_trial = 1, req_concurrent = 1\<rparr> BatchManager_init)))
     = [IntKey 1]"
  by code_simp

section \<open>The end of a batch\<close>

text \<open>
  A pass of the loop body over a batch with nothing pending, on a backend that lists no
  running container, ends the batch: the running flag falls, the last event is the one
  \<open>batch_complete\<close> of the pass, and the pass ends in \<open>break\<close>.
\<close>

lemma classify_exited_pending_empty:
  "pending_trials bm = [] \<Longrightarrow> pending_trials (classify_exited be cs bm) = []"
proof -
  assume "pending_trials bm = []"
  then have "set (pending_trials (classify_exited be cs bm)) \<subseteq> {}"
    using classify_exited_keeps[where Q = "\<lambda>b. set (pending_trials b) \<subseteq> {}" and bm = bm and be = be and cs = cs]
      mark_completed_pending mark_failed_pending
    by (metis empty_set subset_empty subset_trans)
  then show ?thesis by simp
qed

lemma classify_exited_batch:
  "active_batch (classify_exited be cs bm) = active_batch bm"
  by (rule classify_exited_keeps[where Q = "\<lambda>b. active_batch b = active_batch bm"])
     (simp_all add: mark_completed_def mark_failed_def Let_def)

lemma monitor_cycle_terminal:
  assumes "docker_available be" "listing be = Some cs" "filter is_running cs = []"
      and "pending_trials bm = []" "active_batch bm = Some b" "total_n b \<noteq> 0"
  shows "\<exists>bm' st st'. monitor_cycle be bm = (bm', [Batch_update st, Batch_complete st'], True) \<and>
           \<not> running bm' \<and> pending_trials bm' = []"
proof -
  let ?bm1 = "classify_exited be cs bm"
  have p: "pending_trials ?bm1 = []" using assms(4) by (rule classify_exited_pending_empty)
  have a: "active_batch ?bm1 = Some b" using assms(5) by (simp add: classify_exited_batch)
  have f: "fill_capacity be 0 ?bm1 [] = (0, ?bm1, [])"
    by (subst fill_capacity.simps) (simp add: p)
  obtain st where st: "get_status ?bm1 = Inr st"
    using a assms(6) by (auto simp: get_status_def py_truediv_def)
  obtain st' where st': "get_status (?bm1\<lparr>running := False\<rparr>) = Inr st'"
    using a assms(6) by (auto simp: get_status_def py_truediv_def)
  show ?thesis
    using assms(1,2,3)
    by (simp add: monitor_cycle_def get_simulation_containers_def f st st' p Let_def)
qed

text \<open>
  But the guard of the loop asks for the opposite: with nothing pending and no trial
  container running it is false, so from such a state the task ends without a pass, the
  batch stays marked running and nothing is broadcast.
\<close>

lemma guard_skips_terminal_state:
  assumes "running bm" "pending_trials bm = []" "get_running_trial_count at_guard = Inr 0"
  shows "batch_monitor_task ((at_guard, at_body) # script) bm = (Guard_exit, bm, [])"
  using assms by (simp add: loop_guard_def)

text \<open>
  C6 on the code, at the ordinary end of a batch. The batch of the single trial 1 is
  running its trial; the container exits while the monitor sleeps. The first pass sees a
  running container and ends nothing; the next guard sees nothing pending and nothing
  running and leaves the loop. No pass has found the terminal state: the batch is still
  marked running and no \<open>batch_complete\<close> event was broadcast.
\<close>

theorem monitor_misses_completion:
  "fst (batch_monitor_task exit_during_sleep single_trial_batch) = Guard_exit \<and>
   running (fst (snd (batch_monitor_task exit_during_sleep single_trial_batch))) \<and>
   pending_trials (fst (snd (batch_monitor_task exit_during_sleep single_trial_batch))) = [] \<and>
   filter is_batch_complete (snd (snd (batch_monitor_task exit_during_sleep single_trial_batch)))
     = []"
  by code_simp

text \<open>
  The other way into the terminal state: every start of the batch fails in the start
  request itself. The monitor it spawns leaves at its first guard.
\<close>

lemma monitor_after_failed_starts:
  "batch_monitor_task [(backend_with [] True False, backend_with [] True False)]
     (fst (snd (start_batch (backend_with [] True False) ''t0''
        \<lparr>req_start_trial = 1, req_end_trial = 1, req_concurrent = 1\<rparr> BatchManager_init)))
   = (Guard_exit,
      fst (snd (start_batch (backend_with [] True False) ''t0''
        \<lparr>req_start_trial = 1, req_end_trial = 1, req_concurrent = 1\<rparr> BatchManager_init)),
      []) \<and>
   running (fst (snd (start_batch (backend_with [] True False) ''t0''
        \<lparr>req_start_trial = 1, req_end_trial = 1, req_concurrent = 1\<rparr> BatchManager_init)))"
  by code_simp

section \<open>Broadcasting to the observers\<close>

lemma broadcast_loop_map:
  "broadcast_loop send_fails message ws =
     map (\<lambda>w. if send_fails w then Send_failed w message else Delivered w message) ws"
  by (induction ws) simp_all

lemma broadcast_loop_targets: "map delivery_to (broadcast_loop send_fails message ws) = ws"
  by (induction ws) simp_all

lemma broadcast_loop_delivered:
  "map delivery_to (filter delivered (broadcast_loop send_fails message ws)) =
     filter (\<lambda>w. \<not> send_fails w) ws"
  by (induction ws) simp_all

text \<open>
  C9. A broadcast calls \<open>send_json\<close> once on every held observer, in the order they are
  held; the observers that receive the event are exactly those whose own send does not
  fail, whatever happens at the others; and the set of observers is the same afterwards.
\<close>

theorem broadcast_delivery:
  "fst (broadcast send_fails message cm) = cm \<and>
   map delivery_to (snd (broadcast send_fails message cm)) = active_connections cm \<and>
   map delivery_to (filter delivered (snd (broadcast send_fails message cm))) =
     filter (\<lambda>w. \<not> send_fails w) (active_connections cm) \<and>
   snd (broadcast send_fails message cm) =
     map (\<lambda>w. if send_fails w then Send_failed w message else Delivered w message)
       (active_connections cm)"
  unfolding broadcast_def fst_conv snd_conv
  by (intro conjI refl broadcast_loop_targets broadcast_loop_delivered broadcast_loop_map)

text \<open>
  Three observers, the send to the second failing: the first and the third receive the
  event, and the second is still held. Only \<open>disconnect\<close> takes it out.
\<close>

lemma broadcast_one_failure:
  "broadcast (\<lambda>w. w = 2) Batch_cancelled \<lparr>active_connections = [1, 2, 3]\<rparr> =
     (\<lparr>active_connections = [1, 2, 3]\<rparr>,
      [Delivered 1 Batch_cancelled, Send_failed 2 Batch_cancelled, Delivered 3 Batch_cancelled])"
  by (simp add: broadcast_def)

lemma disconnect_removes:
  "disconnect 2 \<lparr>active_connections = [1, 2, 3]\<rparr> = Inr \<lparr>active_connections = [1, 3]\<rparr> \<and>
   disconnect 4 \<lparr>active_connections = [1, 2, 3]\<rparr> = Inl ValueError"
  by (simp add: disconnect_def)

section \<open>CPU percentage\<close>



lemma sample_stats_example:
  "sample_stats \<lparr>cpu_total_usage = Some 500, precpu_total_usage = Some 300,
        system_cpu_usage = Some 9000, presystem_cpu_usage = Some 8000,
        memory_usage = Some 1048576, memory_limit = Some 4194304\<rparr> =
     Inr \<lparr>cpu_percent = 20, mem_usage_mb = 1, mem_percent = 25\<rparr>"
  by (simp add: cpu_percent_of_def py_truediv_def sample_stats_def subscript_def dict_get_def
        py_round1_def Let_def)

section \<open>Matching the patterns\<close>





section \<open>Proxy routing\<close>




lemma proxy_rejects_unparsed:
  "proxy_handler upstream \<lparr>host_header = ''notatrial.example.com'', path_qs = ''/''\<rparr> =
     (Inr \<lparr>resp_status = 400,
           resp_text = ''Invalid trial URL. Use trialX.bharathdesikan.com''\<rparr>, [])"
  by (simp add: proxy_handler_def extract_trial_number_def strip_prefix_def)

text \<open>A host without a dot after the digits, such as a bare \<open>trial7\<close>, is not parsed.\<close>

lemma extract_needs_dot:
  "extract_trial_number \<lparr>host_header = ''trial7'', path_qs = ''/''\<rparr> = None \<and>
   extract_trial_number \<lparr>host_header = ''trial7:6099'', path_qs = ''/''\<rparr> = None"
  by code_simp

text \<open>
  The streaming handler routes by the same rule and rejects the same hosts, but has no
  503 answer: when the upstream connection fails, the upgraded connection is closed.
\<close>

lemma websocket_handler_routing:
  "(extract_trial_number request = None \<longrightarrow>
      websocket_handler ws_connect request =
        (Ws_rejected \<lparr>resp_status = 400, resp_text = ''Invalid trial URL''\<rparr>, [])) \<and>
   (\<forall>n. extract_trial_number request = Some n \<longrightarrow>
      snd (websocket_handler ws_connect request) = [6080 + n] \<and>
      (\<not> ws_connect (6080 + n) (path_qs request) \<longrightarrow>
         fst (websocket_handler ws_connect request) = Ws_closed_on_error))"
  by (simp add: websocket_handler_def BASE_VNC_PORT_def Let_def)

section \<open>Mission progress\<close>















end
